theory Spec2Isabelle
  imports Main
begin

section \<open>Remote-operations check of \<^verbatim>\<open>server/events/runtime/remote_ops_checker.go\<close>\<close>

text \<open>
  The Go method \<^verbatim>\<open>(*DefaultRemoteOpsChecker).UsingRemoteOps\<close> reads the project's
  Terraform statefile, validates its backend block, reads the API token from
  \<^verbatim>\<open>~/.terraformrc\<close> and asks the TFE API whether the organization and the workspace run
  remote operations. Everything the method takes from outside (the file system, the JSON
  and HCL decoders, the home directory, the TFE client) is a field of an environment
  record; the method itself is embedded stage by stage, in the order of the source.
  Calls of the logger have no influence on the result and are left out.
\<close>

subsection \<open>Errors and abnormal termination\<close>

text \<open>
  A Go \<^verbatim>\<open>error\<close> value. \<^verbatim>\<open>errors.New\<close>, \<^verbatim>\<open>errors.Wrap\<close> and \<^verbatim>\<open>fmt.Errorf\<close> are kept
  as constructors, the latter with its format string and its arguments unrendered. An
  error made by a library outside this file carries its message and whether
  \<^verbatim>\<open>os.IsNotExist\<close> holds of it.
\<close>

datatype error =
    external_error string bool
  | errors_New string
  | errors_Wrap error string
  | fmt_Errorf string "string list"

fun os_IsNotExist :: "error \<Rightarrow> bool" where
  "os_IsNotExist (external_error msg notExist) = notExist"
| "os_IsNotExist (errors_New msg) = False"
| "os_IsNotExist (errors_Wrap err msg) = False"
| "os_IsNotExist (fmt_Errorf format args) = False"

text \<open>
  The two run-time panics the method can raise: dereferencing a nil pointer
  (\<^verbatim>\<open>*backend.Type\<close>, line 72) and a failed unchecked type assertion
  (\<^verbatim>\<open>tokenGeneric.(string)\<close>, line 149).
\<close>

datatype panic = nil_pointer_dereference | interface_conversion

datatype 'a exec = Normal 'a | Panic panic

subsection \<open>Data read from the statefile (lines 37-62)\<close>

record WorkspaceEntry =
  Name :: string
  Prefix :: string

record BackendConfig =
  Config_Hostname :: "string option"
  Config_Organization :: "string option"
  Config_Workspaces :: "WorkspaceEntry list option"

record BackendBlock =
  Backend_Type :: "string option"
  Backend_Config :: "BackendConfig option"

record Statefile =
  Backend :: "BackendBlock option"

record RemoteBackend =
  Hostname :: string
  Organization :: string
  WorkspaceName :: string
  WorkspacePrefix :: string

text \<open>The zero value \<^verbatim>\<open>RemoteBackend{}\<close>.\<close>

definition RemoteBackend_zero :: RemoteBackend where
  "RemoteBackend_zero =
     \<lparr>Hostname = [], Organization = [], WorkspaceName = [], WorkspacePrefix = []\<rparr>"

subsection \<open>Data read from the credentials file and from the API\<close>

text \<open>A value of type \<^verbatim>\<open>interface{}\<close> as the HCL decoder produces it.\<close>

datatype go_value =
    go_string string
  | go_int int
  | go_bool bool
  | go_list "go_value list"
  | go_map "(string \<times> go_value) list"

record Config =
  Credentials :: "string \<rightharpoonup> (string \<rightharpoonup> go_value)"

record tfe_Entitlements =
  Entitlements_Operations :: bool

record tfe_Workspace =
  Workspace_Operations :: bool

subsection \<open>The environment\<close>

text \<open>
  The library functions the method calls. A call that yields a value or an error is a
  sum (\<open>Inl\<close> the error); the two API reads, whose payload the method tests for nil
  separately from the error, return both components. The types of the HCL syntax tree and
  of the TFE client are opaque to the method and are type parameters.
\<close>

record ('ast, 'client) env =
  filepath_Join :: "string \<Rightarrow> string \<Rightarrow> string"
  ioutil_ReadFile :: "string \<Rightarrow> error + string"
  json_Unmarshal :: "string \<Rightarrow> error + Statefile"
  homedir_Dir :: "error + string"
  hcl_Parse :: "string \<Rightarrow> error + 'ast"
  hcl_DecodeObject :: "'ast \<Rightarrow> error + Config"
  tfe_NewClient :: "string \<Rightarrow> error + 'client"
  Organizations_Entitlements ::
    "'client \<Rightarrow> string \<Rightarrow> tfe_Entitlements option \<times> error option"
  Workspaces_Read ::
    "'client \<Rightarrow> string \<Rightarrow> string \<Rightarrow> tfe_Workspace option \<times> error option"

text \<open>
  What the method does to the outside, in order: the files it reads and the API calls it
  makes, each with its arguments.
\<close>

datatype 'client event =
    ReadFile_event string
  | NewClient_event string
  | Entitlements_event 'client string
  | WorkspacesRead_event 'client string string

type_synonym 'client run = "(bool \<times> error option) exec \<times> 'client event list"

definition ret :: "bool \<Rightarrow> error option \<Rightarrow> 'client run" where
  "ret b err = (Normal (b, err), [])"

definition emit :: "'client event \<Rightarrow> 'client run \<Rightarrow> 'client run" where
  "emit e r = (fst r, e # snd r)"

subsection \<open>Validation of the statefile (the closure of lines 65-104)\<close>

definition validate :: "Statefile \<Rightarrow> (bool \<times> RemoteBackend \<times> error option) exec" where
  \<open>validate statefile =
     (case Backend statefile of
        None \<Rightarrow> Normal (False, RemoteBackend_zero, None)
      | Some backend \<Rightarrow>
        (case Backend_Type backend of
           None \<Rightarrow> Panic nil_pointer_dereference
         | Some ty \<Rightarrow>
           if ty \<noteq> ''remote'' then Normal (False, RemoteBackend_zero, None)
           else
             (case Backend_Config backend of
                None \<Rightarrow> Normal (False, RemoteBackend_zero, Some (errors_New
                  ''statefile backend is of type "remote" but has no backend.config block''))
              | Some config \<Rightarrow>
                (case Config_Organization config of
                   None \<Rightarrow> Normal (False, RemoteBackend_zero, Some (errors_New
                     ''statefile backend is of type "remote" but has no organization set''))
                 | Some org \<Rightarrow>
                   (case Config_Workspaces config of
                      None \<Rightarrow> Normal (False, RemoteBackend_zero, Some (errors_New
                        ''statefile backend is of type "remote" but has no workspaces set''))
                    | Some [] \<Rightarrow> Normal (False, RemoteBackend_zero, Some (errors_New
                        ''statefile backend is of type "remote" but has no workspaces set''))
                    | Some (workspace # rest) \<Rightarrow>
                      if Name workspace = [] \<and> Prefix workspace = []
                      then Normal (False, RemoteBackend_zero, Some (errors_New
                        ''statefile backend is of type "remote" but workspace has neither name nor prefix set''))
                      else
                        (let hostname =
                           (case Config_Hostname config of
                              None \<Rightarrow> ''app.terraform.io''
                            | Some h \<Rightarrow> h)
                         in Normal (True,
                              \<lparr>Hostname = hostname,
                               Organization = org,
                               WorkspaceName = Name workspace,
                               WorkspacePrefix = Prefix workspace\<rparr>, None)))))))\<close>

subsection \<open>The workspace check (lines 171-186)\<close>

definition tfeWorkspaceName :: "RemoteBackend \<Rightarrow> string \<Rightarrow> string" where
  "tfeWorkspaceName backend workspace =
     (if WorkspacePrefix backend \<noteq> [] then WorkspacePrefix backend @ workspace
      else WorkspaceName backend)"

definition checkWorkspace ::
  "('ast, 'client) env \<Rightarrow> string \<Rightarrow> RemoteBackend \<Rightarrow> 'client \<Rightarrow> 'client run" where
  "checkWorkspace e workspace backend client =
     emit (WorkspacesRead_event client (Organization backend) (tfeWorkspaceName backend workspace))
       (case Workspaces_Read e client (Organization backend) (tfeWorkspaceName backend workspace) of
          (tfeWorkspace, Some err) \<Rightarrow>
            ret False (Some (errors_Wrap err ''calling TFE API to determine if using remote ops''))
        | (None, None) \<Rightarrow>
            ret False (Some (errors_New
              ''got nil workspace calling TFE API to determine if using remote ops''))
        | (Some tfeWorkspace, None) \<Rightarrow>
            ret (Workspace_Operations tfeWorkspace) None)"

subsection \<open>The entitlements check (lines 152-169)\<close>

definition checkEntitlements ::
  "('ast, 'client) env \<Rightarrow> string \<Rightarrow> RemoteBackend \<Rightarrow> string \<Rightarrow> 'client run" where
  "checkEntitlements e workspace backend token =
     emit (NewClient_event token)
       (case tfe_NewClient e token of
          Inl err \<Rightarrow>
            ret False (Some (errors_Wrap err
              ''creating TFE API client to determine if using remote ops''))
        | Inr client \<Rightarrow>
            emit (Entitlements_event client (Organization backend))
              (case Organizations_Entitlements e client (Organization backend) of
                 (entitlements, Some err) \<Rightarrow>
                   ret False (Some (errors_Wrap err
                     ''calling TFE API to determine if using remote ops''))
               | (None, None) \<Rightarrow>
                   ret False (Some (errors_New
                     ''got nil entitlements calling TFE API to determine if using remote ops''))
               | (Some entitlements, None) \<Rightarrow>
                   if \<not> Entitlements_Operations entitlements then ret False None
                   else checkWorkspace e workspace backend client))"

subsection \<open>Reading the token from the credentials file (lines 117-150)\<close>

definition retrieveToken ::
  "('ast, 'client) env \<Rightarrow> string \<Rightarrow> RemoteBackend \<Rightarrow> 'client run" where
  "retrieveToken e workspace backend =
     (case homedir_Dir e of
        Inl err \<Rightarrow> ret False (Some (errors_Wrap err ''retrieving token from .terraformrc file''))
      | Inr home \<Rightarrow>
        (let rcFilePath = filepath_Join e home ''.terraformrc'' in
         emit (ReadFile_event rcFilePath)
           (case ioutil_ReadFile e rcFilePath of
              Inl err \<Rightarrow>
                ret False (Some (errors_Wrap err ''retrieving token from .terraformrc file''))
            | Inr rcFileBytes \<Rightarrow>
              (case hcl_Parse e rcFileBytes of
                 Inl err \<Rightarrow>
                   ret False (Some (errors_Wrap err
                     ''parsing .terraformrc file to retrieve TFE token''))
               | Inr obj \<Rightarrow>
                 (case hcl_DecodeObject e obj of
                    Inl err \<Rightarrow>
                      ret False (Some (errors_Wrap err
                        ''decoding .terraformrc file to retrieve TFE token''))
                  | Inr rcFile \<Rightarrow>
                    (case Credentials rcFile (Hostname backend) of
                       None \<Rightarrow>
                         ret False (Some (fmt_Errorf
                           ''found no credentials config for hostname %q in %q''
                           [Hostname backend, rcFilePath]))
                     | Some hostnameConf \<Rightarrow>
                       (case hostnameConf ''token'' of
                          None \<Rightarrow>
                            ret False (Some (fmt_Errorf
                              ''found no token key in config for hostname %q in %q''
                              [Hostname backend, rcFilePath]))
                        | Some (go_string token) \<Rightarrow>
                            checkEntitlements e workspace backend token
                        | Some tokenGeneric \<Rightarrow>
                            (Panic interface_conversion, []))))))))"

subsection \<open>The method (lines 24-187)\<close>

definition UsingRemoteOps ::
  "('ast, 'client) env \<Rightarrow> string \<Rightarrow> string \<Rightarrow> 'client run" where
  "UsingRemoteOps e workspace projectAbsPath =
     (let statePath = filepath_Join e projectAbsPath ''.terraform/terraform.tfstate'' in
      emit (ReadFile_event statePath)
        (case ioutil_ReadFile e statePath of
           Inl err \<Rightarrow> if os_IsNotExist err then ret False None else ret False (Some err)
         | Inr stateBytes \<Rightarrow>
           (case json_Unmarshal e stateBytes of
              Inl err \<Rightarrow> ret False (Some err)
            | Inr statefile \<Rightarrow>
              (case validate statefile of
                 Panic p \<Rightarrow> (Panic p, [])
               | Normal (isRemote, backend, err) \<Rightarrow>
                   if err \<noteq> None then ret False err
                   else if \<not> isRemote then ret False None
                   else retrieveToken e workspace backend))))"

subsection \<open>Conditions on a run\<close>

text \<open>
  Names for the four cases in which the method is to answer \<^verbatim>\<open>(false, nil)\<close> before it
  reads a workspace: the statefile does not exist (line 30), the statefile has no backend
  block (line 67), the statefile has a backend block whose type is not \<^verbatim>\<open>remote\<close>
  (line 72; an absent type is not \<^verbatim>\<open>remote\<close> either), and an entitlements query of the
  run answered without the \<^verbatim>\<open>Operations\<close> flag (line 166). \<open>workspace_answer\<close> says
  that a workspace read of the run answered with a payload whose \<^verbatim>\<open>Operations\<close> flag
  is \<open>b\<close> (line 186).
\<close>

definition statefile_missing :: "('ast, 'client) env \<Rightarrow> string \<Rightarrow> bool" where
  "statefile_missing e projectAbsPath =
     (case ioutil_ReadFile e (filepath_Join e projectAbsPath ''.terraform/terraform.tfstate'') of
        Inl err \<Rightarrow> os_IsNotExist err
      | Inr stateBytes \<Rightarrow> False)"

definition parsed_statefile :: "('ast, 'client) env \<Rightarrow> string \<Rightarrow> Statefile option" where
  "parsed_statefile e projectAbsPath =
     (case ioutil_ReadFile e (filepath_Join e projectAbsPath ''.terraform/terraform.tfstate'') of
        Inl err \<Rightarrow> None
      | Inr stateBytes \<Rightarrow>
        (case json_Unmarshal e stateBytes of
           Inl err \<Rightarrow> None
         | Inr statefile \<Rightarrow> Some statefile))"

definition no_backend_block :: "('ast, 'client) env \<Rightarrow> string \<Rightarrow> bool" where
  "no_backend_block e projectAbsPath =
     (case parsed_statefile e projectAbsPath of
        None \<Rightarrow> False
      | Some statefile \<Rightarrow> Backend statefile = None)"

definition backend_not_remote :: "('ast, 'client) env \<Rightarrow> string \<Rightarrow> bool" where
  "backend_not_remote e projectAbsPath =
     (case parsed_statefile e projectAbsPath of
        None \<Rightarrow> False
      | Some statefile \<Rightarrow>
        (case Backend statefile of
           None \<Rightarrow> False
         | Some block \<Rightarrow> Backend_Type block \<noteq> Some ''remote''))"

fun answers_not_entitled :: "('ast, 'client) env \<Rightarrow> 'client event \<Rightarrow> bool" where
  "answers_not_entitled e (Entitlements_event client org) =
     (case Organizations_Entitlements e client org of
        (Some entitlements, None) \<Rightarrow> \<not> Entitlements_Operations entitlements
      | (entitlements, err) \<Rightarrow> False)"
| "answers_not_entitled e ev = False"

definition not_entitled :: "('ast, 'client) env \<Rightarrow> 'client event list \<Rightarrow> bool" where
  "not_entitled e events = list_ex (answers_not_entitled e) events"

fun answers_workspace :: "('ast, 'client) env \<Rightarrow> bool \<Rightarrow> 'client event \<Rightarrow> bool" where
  "answers_workspace e b (WorkspacesRead_event client org name) =
     (case Workspaces_Read e client org name of
        (Some tfeWorkspace, None) \<Rightarrow> b = Workspace_Operations tfeWorkspace
      | (tfeWorkspace, err) \<Rightarrow> False)"
| "answers_workspace e b ev = False"

definition workspace_answer :: "('ast, 'client) env \<Rightarrow> 'client event list \<Rightarrow> bool \<Rightarrow> bool" where
  "workspace_answer e events b = list_ex (answers_workspace e b) events"

subsection \<open>Concrete environments\<close>

text \<open>
  An environment in which every library call succeeds: paths are joined with a slash, a
  file's content is its path, the statefile decodes to \<open>statefile\<close>, the credentials file
  to \<open>rcFile\<close>, the client is its token, and the two API reads answer \<open>entitlements\<close> and
  \<open>tfeWorkspace\<close>.
\<close>

definition sample_env ::
  "Statefile \<Rightarrow> Config \<Rightarrow> tfe_Entitlements option \<times> error option \<Rightarrow>
   tfe_Workspace option \<times> error option \<Rightarrow> (unit, string) env" where
  "sample_env statefile rcFile entitlements tfeWorkspace =
     \<lparr>filepath_Join = (\<lambda>dir file. dir @ ''/'' @ file),
      ioutil_ReadFile = (\<lambda>path. Inr path),
      json_Unmarshal = (\<lambda>bytes. Inr statefile),
      homedir_Dir = Inr ''/home/atlantis'',
      hcl_Parse = (\<lambda>bytes. Inr ()),
      hcl_DecodeObject = (\<lambda>obj. Inr rcFile),
      tfe_NewClient = (\<lambda>token. Inr token),
      Organizations_Entitlements = (\<lambda>client org. entitlements),
      Workspaces_Read = (\<lambda>client org name. tfeWorkspace)\<rparr>"

text \<open>A statefile of the \<^verbatim>\<open>remote\<close> backend of organization \<^verbatim>\<open>acme\<close>.\<close>

definition remote_statefile :: "string option \<Rightarrow> WorkspaceEntry list \<Rightarrow> Statefile" where
  "remote_statefile hostname workspaces =
     \<lparr>Backend = Some \<lparr>Backend_Type = Some ''remote'',
        Backend_Config = Some \<lparr>Config_Hostname = hostname,
          Config_Organization = Some ''acme'',
          Config_Workspaces = Some workspaces\<rparr>\<rparr>\<rparr>"

text \<open>A credentials file with one hostname block that holds one \<^verbatim>\<open>token\<close> entry.\<close>

definition token_file :: "string \<Rightarrow> go_value \<Rightarrow> Config" where
  "token_file hostname token = \<lparr>Credentials = [hostname \<mapsto> [''token'' \<mapsto> token]]\<rparr>"

section \<open>Properties\<close>

lemmas run_defs = UsingRemoteOps_def retrieveToken_def checkEntitlements_def
  checkWorkspace_def tfeWorkspaceName_def validate_def emit_def ret_def RemoteBackend_zero_def

lemmas sample_defs = sample_env_def remote_statefile_def token_file_def

subsection \<open>The stages of a run\<close>

text \<open>
  What a validated statefile looks like, which events each stage emits, and how far a run
  must have come to emit an event of a later stage.
\<close>

lemma validate_resolved:
  assumes "validate statefile = Normal (True, backend, err)"
  shows "\<exists>block config org first rest.
           Backend statefile = Some block \<and> Backend_Type block = Some ''remote'' \<and>
           Backend_Config block = Some config \<and> Config_Organization config = Some org \<and>
           Config_Workspaces config = Some (first # rest) \<and>
           \<not> (Name first = [] \<and> Prefix first = []) \<and>
           backend = \<lparr>Hostname = (case Config_Hostname config of
                                     None \<Rightarrow> ''app.terraform.io'' | Some h \<Rightarrow> h),
                      Organization = org, WorkspaceName = Name first,
                      WorkspacePrefix = Prefix first\<rparr> \<and> err = None"
  using assms
  by (auto simp: validate_def Let_def split: option.splits if_splits list.splits)


lemma checkWorkspace_events:
  "snd (checkWorkspace e workspace backend client) =
     [WorkspacesRead_event client (Organization backend) (tfeWorkspaceName backend workspace)]"
  by (simp add: checkWorkspace_def emit_def ret_def split: prod.splits option.splits)



lemma UsingRemoteOps_resolved:
  assumes "ioutil_ReadFile e (filepath_Join e projectAbsPath ''.terraform/terraform.tfstate'') = Inr stateBytes"
    and "json_Unmarshal e stateBytes = Inr statefile"
    and "validate statefile = Normal (True, backend, None)"
  shows "UsingRemoteOps e workspace projectAbsPath =
         emit (ReadFile_event (filepath_Join e projectAbsPath ''.terraform/terraform.tfstate''))
           (retrieveToken e workspace backend)"
  using assms by (simp add: UsingRemoteOps_def Let_def)

lemma UsingRemoteOps_reaches_token:
  assumes "snd (UsingRemoteOps e workspace projectAbsPath) \<noteq>
             [ReadFile_event (filepath_Join e projectAbsPath ''.terraform/terraform.tfstate'')]"
  shows "\<exists>stateBytes statefile backend.
           ioutil_ReadFile e (filepath_Join e projectAbsPath ''.terraform/terraform.tfstate'') = Inr stateBytes \<and>
           json_Unmarshal e stateBytes = Inr statefile \<and>
           validate statefile = Normal (True, backend, None) \<and>
           UsingRemoteOps e workspace projectAbsPath =
             emit (ReadFile_event (filepath_Join e projectAbsPath ''.terraform/terraform.tfstate''))
               (retrieveToken e workspace backend)"
  using assms
  by (auto simp: UsingRemoteOps_def Let_def emit_def ret_def
      split: sum.splits exec.splits if_splits)

lemma retrieveToken_reaches_client:
  assumes "ev \<in> set (snd (retrieveToken e workspace backend))"
    and "\<And>path. ev \<noteq> ReadFile_event path"
  shows "\<exists>home token. homedir_Dir e = Inr home \<and>
           retrieveToken e workspace backend =
             emit (ReadFile_event (filepath_Join e home ''.terraformrc''))
               (checkEntitlements e workspace backend token)"
  using assms
  by (auto simp: retrieveToken_def Let_def emit_def ret_def
      split: sum.splits option.splits go_value.splits)

lemma checkEntitlements_not_entitled:
  assumes "Entitlements_event client org \<in> set (snd (checkEntitlements e workspace backend token))"
    and "Organizations_Entitlements e client org = (Some entitlements, None)"
    and "\<not> Entitlements_Operations entitlements"
  shows "checkEntitlements e workspace backend token =
           (Normal (False, None), [NewClient_event token, Entitlements_event client org])"
  using assms
  by (auto simp: checkEntitlements_def emit_def ret_def checkWorkspace_events
      split: sum.splits prod.splits option.splits if_splits)

text \<open>A validation that answers "not remote" without an error saw no backend block or another type.\<close>

lemma validate_not_remote:
  assumes "validate statefile = Normal (False, backend, None)"
  shows "Backend statefile = None \<or>
         (\<exists>block ty. Backend statefile = Some block \<and> Backend_Type block = Some ty \<and>
            ty \<noteq> ''remote'')"
  using assms
  by (auto simp: validate_def Let_def split: option.splits if_splits list.splits)

text \<open>
  A run whose entitlements query answers without the \<^verbatim>\<open>Operations\<close> flag ends there:
  its result and all its events are known.
\<close>

lemma run_not_entitled:
  assumes "Entitlements_event client org \<in> set (snd (UsingRemoteOps e workspace projectAbsPath))"
    and "Organizations_Entitlements e client org = (Some entitlements, None)"
    and "\<not> Entitlements_Operations entitlements"
  shows "\<exists>home token. UsingRemoteOps e workspace projectAbsPath =
           (Normal (False, None),
            [ReadFile_event (filepath_Join e projectAbsPath ''.terraform/terraform.tfstate''),
             ReadFile_event (filepath_Join e home ''.terraformrc''),
             NewClient_event token, Entitlements_event client org])"
proof -
  let ?path = "filepath_Join e projectAbsPath ''.terraform/terraform.tfstate''"
  from assms(1) have "snd (UsingRemoteOps e workspace projectAbsPath) \<noteq> [ReadFile_event ?path]"
    by auto
  from UsingRemoteOps_reaches_token [OF this]
  obtain backend where u: "UsingRemoteOps e workspace projectAbsPath =
              emit (ReadFile_event ?path) (retrieveToken e workspace backend)"
    by auto
  with assms(1) have "Entitlements_event client org \<in> set (snd (retrieveToken e workspace backend))"
    by (simp add: emit_def)
  from retrieveToken_reaches_client [OF this]
  obtain home token where r: "retrieveToken e workspace backend =
             emit (ReadFile_event (filepath_Join e home ''.terraformrc''))
               (checkEntitlements e workspace backend token)"
    by auto
  with assms(1) u have "Entitlements_event client org \<in> set (snd (checkEntitlements e workspace backend token))"
    by (simp add: emit_def)
  from checkEntitlements_not_entitled [OF this assms(2,3)] u r show ?thesis
    by (intro exI [of _ home] exI [of _ token]) (simp add: emit_def)
qed

lemma not_entitled_run:
  assumes "not_entitled e (snd (UsingRemoteOps e workspace projectAbsPath))"
  shows "fst (UsingRemoteOps e workspace projectAbsPath) = Normal (False, None)"
proof -
  from assms obtain ev where ev: "ev \<in> set (snd (UsingRemoteOps e workspace projectAbsPath))"
    and a: "answers_not_entitled e ev"
    by (auto simp: not_entitled_def list_ex_iff)
  from a obtain client org entitlements where "ev = Entitlements_event client org"
    and "Organizations_Entitlements e client org = (Some entitlements, None)"
    and "\<not> Entitlements_Operations entitlements"
    by (cases ev) (auto split: prod.splits option.splits)
  with ev run_not_entitled [of client org e workspace projectAbsPath entitlements]
  show ?thesis by auto
qed

text \<open>
  What a stage returns when it returns: an error, or nothing at all because the
  organization is not entitled, or the flag of the workspace it has read.
\<close>

lemma fst_emit [simp]: "fst (emit ev r) = fst r"
  by (simp add: emit_def)

lemma snd_emit [simp]: "snd (emit ev r) = ev # snd r"
  by (simp add: emit_def)

lemma not_entitled_simps [simp]:
  "not_entitled e [] = False"
  "not_entitled e (ev # events) = (answers_not_entitled e ev \<or> not_entitled e events)"
  by (simp_all add: not_entitled_def)

lemma workspace_answer_simps [simp]:
  "workspace_answer e [] b = False"
  "workspace_answer e (ev # events) b = (answers_workspace e b ev \<or> workspace_answer e events b)"
  by (simp_all add: workspace_answer_def)

lemma checkWorkspace_outcome:
  assumes "fst (checkWorkspace e workspace backend client) = Normal (b, err)"
  shows "(b = False \<and> err \<noteq> None) \<or>
         (err = None \<and> workspace_answer e (snd (checkWorkspace e workspace backend client)) b)"
  using assms
  by (auto simp: checkWorkspace_def ret_def split: prod.splits option.splits)

lemma checkEntitlements_outcome:
  assumes "fst (checkEntitlements e workspace backend token) = Normal (b, err)"
  shows "(b = False \<and> err \<noteq> None) \<or>
         not_entitled e (snd (checkEntitlements e workspace backend token)) \<or>
         (err = None \<and> workspace_answer e (snd (checkEntitlements e workspace backend token)) b)"
  using assms
  by (auto simp: checkEntitlements_def ret_def
      split: sum.splits prod.splits option.splits if_splits
      dest: checkWorkspace_outcome)

lemma retrieveToken_outcome:
  assumes "fst (retrieveToken e workspace backend) = Normal (b, err)"
  shows "(b = False \<and> err \<noteq> None) \<or>
         not_entitled e (snd (retrieveToken e workspace backend)) \<or>
         (err = None \<and> workspace_answer e (snd (retrieveToken e workspace backend)) b)"
  using assms
  by (auto simp: retrieveToken_def ret_def Let_def
      split: sum.splits option.splits go_value.splits
      dest: checkEntitlements_outcome)

lemma UsingRemoteOps_outcome_early:
  assumes "fst (UsingRemoteOps e workspace projectAbsPath) = Normal (b, err)"
    and "\<not> statefile_missing e projectAbsPath"
    and "\<not> no_backend_block e projectAbsPath"
    and "\<not> backend_not_remote e projectAbsPath"
  shows "(b = False \<and> err \<noteq> None) \<or>
         (\<exists>backend. UsingRemoteOps e workspace projectAbsPath =
            emit (ReadFile_event (filepath_Join e projectAbsPath ''.terraform/terraform.tfstate''))
              (retrieveToken e workspace backend))"
  using assms
  by (auto simp: statefile_missing_def no_backend_block_def backend_not_remote_def
      parsed_statefile_def UsingRemoteOps_def Let_def ret_def
      split: sum.splits exec.splits if_splits dest!: validate_not_remote)

text \<open>The four checks of the validation that end in an error, in the order of the source.\<close>

lemma validate_no_config:
  assumes "Backend statefile = Some block" "Backend_Type block = Some ''remote''"
    "Backend_Config block = None"
  shows \<open>validate statefile = Normal (False, RemoteBackend_zero, Some (errors_New
           ''statefile backend is of type "remote" but has no backend.config block''))\<close>
  using assms by (simp add: validate_def)

lemma validate_no_organization:
  assumes "Backend statefile = Some block" "Backend_Type block = Some ''remote''"
    "Backend_Config block = Some config" "Config_Organization config = None"
  shows \<open>validate statefile = Normal (False, RemoteBackend_zero, Some (errors_New
           ''statefile backend is of type "remote" but has no organization set''))\<close>
  using assms by (simp add: validate_def)

lemma validate_no_workspaces:
  assumes "Backend statefile = Some block" "Backend_Type block = Some ''remote''"
    "Backend_Config block = Some config" "Config_Organization config = Some org"
    "Config_Workspaces config = None \<or> Config_Workspaces config = Some []"
  shows \<open>validate statefile = Normal (False, RemoteBackend_zero, Some (errors_New
           ''statefile backend is of type "remote" but has no workspaces set''))\<close>
  using assms by (auto simp: validate_def)

lemma validate_no_name_nor_prefix:
  assumes "Backend statefile = Some block" "Backend_Type block = Some ''remote''"
    "Backend_Config block = Some config" "Config_Organization config = Some org"
    "Config_Workspaces config = Some (first # rest)" "Name first = []" "Prefix first = []"
  shows \<open>validate statefile = Normal (False, RemoteBackend_zero, Some (errors_New
           ''statefile backend is of type "remote" but workspace has neither name nor prefix set''))\<close>
  using assms by (simp add: validate_def)

lemma UsingRemoteOps_invalid:
  assumes "ioutil_ReadFile e (filepath_Join e projectAbsPath ''.terraform/terraform.tfstate'') = Inr stateBytes"
    and "json_Unmarshal e stateBytes = Inr statefile"
    and "validate statefile = Normal (b, backend, Some err)"
  shows "UsingRemoteOps e workspace projectAbsPath =
           (Normal (False, Some err),
            [ReadFile_event (filepath_Join e projectAbsPath ''.terraform/terraform.tfstate'')])"
  using assms by (simp add: UsingRemoteOps_def Let_def emit_def ret_def)

text \<open>The token stage once the credentials file is read and decoded.\<close>

lemma retrieveToken_decoded:
  assumes "homedir_Dir e = Inr home"
    and "ioutil_ReadFile e (filepath_Join e home ''.terraformrc'') = Inr rcFileBytes"
    and "hcl_Parse e rcFileBytes = Inr obj"
    and "hcl_DecodeObject e obj = Inr rcFile"
  shows "retrieveToken e workspace backend =
           emit (ReadFile_event (filepath_Join e home ''.terraformrc''))
             (case Credentials rcFile (Hostname backend) of
                None \<Rightarrow>
                  ret False (Some (fmt_Errorf
                    ''found no credentials config for hostname %q in %q''
                    [Hostname backend, filepath_Join e home ''.terraformrc'']))
              | Some hostnameConf \<Rightarrow>
                (case hostnameConf ''token'' of
                   None \<Rightarrow>
                     ret False (Some (fmt_Errorf
                       ''found no token key in config for hostname %q in %q''
                       [Hostname backend, filepath_Join e home ''.terraformrc'']))
                 | Some (go_string token) \<Rightarrow> checkEntitlements e workspace backend token
                 | Some tokenGeneric \<Rightarrow> (Panic interface_conversion, [])))"
  using assms by (simp add: retrieveToken_def Let_def)

text \<open>The stages after the validation do not decode JSON.\<close>

lemma checkEntitlements_json_Unmarshal:
  "checkEntitlements (e\<lparr>json_Unmarshal := u\<rparr>) workspace backend token =
   checkEntitlements e workspace backend token"
  by (simp add: checkEntitlements_def checkWorkspace_def
      split: sum.split option.split prod.split)

lemma retrieveToken_json_Unmarshal:
  "retrieveToken (e\<lparr>json_Unmarshal := u\<rparr>) workspace backend = retrieveToken e workspace backend"
  by (simp add: retrieveToken_def checkEntitlements_json_Unmarshal Let_def
      split: sum.split option.split go_value.split)

subsection \<open>Abnormal termination\<close>

text \<open>
  C3. The claim: a \<^verbatim>\<open>token\<close> entry that is not a string makes the method return a distinct
  error instead of failing at run time. The code asserts the type without a check
  (line 149): with the token \<^verbatim>\<open>5\<close> under the resolved hostname the method panics after
  reading the credentials file and returns nothing.
\<close>

theorem non_string_token_panics:
  "UsingRemoteOps
     (sample_env (remote_statefile None [\<lparr>Name = ''exact'', Prefix = []\<rparr>])
        (token_file ''app.terraform.io'' (go_int 5))
        (Some \<lparr>Entitlements_Operations = True\<rparr>, None)
        (Some \<lparr>Workspace_Operations = True\<rparr>, None))
     ''default'' ''/repo'' =
   (Panic interface_conversion,
    [ReadFile_event ''/repo/.terraform/terraform.tfstate'',
     ReadFile_event ''/home/atlantis/.terraformrc''])"
  by (simp add: run_defs sample_defs)

text \<open>
  C4. The claim: a backend block without a \<^verbatim>\<open>type\<close> field makes the method return
  \<^verbatim>\<open>(false, nil)\<close>. The code dereferences the field without a nil check (line 72), unlike
  every other optional field of the block: on the statefile \<^verbatim>\<open>{"backend": {}}\<close> the method
  panics.
\<close>

theorem absent_backend_type_panics:
  "UsingRemoteOps
     (sample_env \<lparr>Backend = Some \<lparr>Backend_Type = None, Backend_Config = None\<rparr>\<rparr>
        (token_file ''app.terraform.io'' (go_string ''secret''))
        (Some \<lparr>Entitlements_Operations = True\<rparr>, None)
        (Some \<lparr>Workspace_Operations = True\<rparr>, None))
     ''default'' ''/repo'' =
   (Panic nil_pointer_dereference, [ReadFile_event ''/repo/.terraform/terraform.tfstate''])"
  by (simp add: run_defs sample_defs)

subsection \<open>The workspace that is queried\<close>



subsection \<open>An organization without the entitlement\<close>

text \<open>
  C2. When the entitlements query of a run answers with a payload whose
  \<^verbatim>\<open>Operations\<close> flag is false and no error, the method returns \<^verbatim>\<open>(false, nil)\<close>
  and the run reads no workspace from the API.
\<close>

theorem not_entitled_stops:
  assumes "Entitlements_event client org \<in> set (snd (UsingRemoteOps e workspace projectAbsPath))"
    and "Organizations_Entitlements e client org = (Some entitlements, None)"
    and "\<not> Entitlements_Operations entitlements"
  shows "fst (UsingRemoteOps e workspace projectAbsPath) = Normal (False, None) \<and>
         (\<forall>c organization name.
            WorkspacesRead_event c organization name \<notin> set (snd (UsingRemoteOps e workspace projectAbsPath)))"
proof -
  from run_not_entitled [OF assms] obtain home token
    where "UsingRemoteOps e workspace projectAbsPath =
           (Normal (False, None),
            [ReadFile_event (filepath_Join e projectAbsPath ''.terraform/terraform.tfstate''),
             ReadFile_event (filepath_Join e home ''.terraformrc''),
             NewClient_event token, Entitlements_event client org])"
    by blast
  then show ?thesis by simp
qed

theorem not_entitled_stops_witness:
  "Entitlements_event ''secret'' ''acme'' \<in> set (snd (UsingRemoteOps
     (sample_env (remote_statefile None [\<lparr>Name = ''exact'', Prefix = []\<rparr>])
        (token_file ''app.terraform.io'' (go_string ''secret''))
        (Some \<lparr>Entitlements_Operations = False\<rparr>, None)
        (Some \<lparr>Workspace_Operations = True\<rparr>, None))
     ''default'' ''/repo'')) \<and>
   fst (UsingRemoteOps
     (sample_env (remote_statefile None [\<lparr>Name = ''exact'', Prefix = []\<rparr>])
        (token_file ''app.terraform.io'' (go_string ''secret''))
        (Some \<lparr>Entitlements_Operations = False\<rparr>, None)
        (Some \<lparr>Workspace_Operations = True\<rparr>, None))
     ''default'' ''/repo'') = Normal (False, None) \<and>
   (\<forall>c organization name. WorkspacesRead_event c organization name \<notin> set (snd (UsingRemoteOps
     (sample_env (remote_statefile None [\<lparr>Name = ''exact'', Prefix = []\<rparr>])
        (token_file ''app.terraform.io'' (go_string ''secret''))
        (Some \<lparr>Entitlements_Operations = False\<rparr>, None)
        (Some \<lparr>Workspace_Operations = True\<rparr>, None))
     ''default'' ''/repo'')))"
proof -
  let ?e = "sample_env (remote_statefile None [\<lparr>Name = ''exact'', Prefix = []\<rparr>])
        (token_file ''app.terraform.io'' (go_string ''secret''))
        (Some \<lparr>Entitlements_Operations = False\<rparr>, None)
        (Some \<lparr>Workspace_Operations = True\<rparr>, None)"
  have ev: "Entitlements_event ''secret'' ''acme'' \<in> set (snd (UsingRemoteOps ?e ''default'' ''/repo''))"
    by (simp add: run_defs sample_defs)
  have ent: "Organizations_Entitlements ?e ''secret'' ''acme'' =
               (Some \<lparr>Entitlements_Operations = False\<rparr>, None)"
    by (simp add: sample_defs)
  have no: "\<not> Entitlements_Operations \<lparr>Entitlements_Operations = False\<rparr>"
    by simp
  show ?thesis
    using ev not_entitled_stops [OF ev ent no] by blast
qed

subsection \<open>Prefix and name both set\<close>



subsection \<open>Incomplete remote backends\<close>

text \<open>
  C6. For a statefile whose backend is of type \<^verbatim>\<open>remote\<close> and whose config block is
  absent, or lacks an organization, or has an absent or empty workspaces list, or whose
  first workspace entry has neither name nor prefix, the method returns \<^verbatim>\<open>false\<close> with a
  descriptive error made by \<^verbatim>\<open>errors.New\<close>, never \<^verbatim>\<open>(false, nil)\<close>, and does nothing
  after reading the statefile. The message is the one of the first check that fails.
\<close>

theorem incomplete_remote_backend_is_error:
  assumes "ioutil_ReadFile e (filepath_Join e projectAbsPath ''.terraform/terraform.tfstate'') = Inr stateBytes"
    and "json_Unmarshal e stateBytes = Inr statefile"
    and "Backend statefile = Some block"
    and "Backend_Type block = Some ''remote''"
    and "Backend_Config block = None \<or>
         (\<exists>config. Backend_Config block = Some config \<and>
            (Config_Organization config = None \<or>
             Config_Workspaces config = None \<or>
             Config_Workspaces config = Some [] \<or>
             (\<exists>first rest. Config_Workspaces config = Some (first # rest) \<and>
                Name first = [] \<and> Prefix first = [])))"
  shows \<open>\<exists>msg.
     UsingRemoteOps e workspace projectAbsPath =
       (Normal (False, Some (errors_New msg)),
        [ReadFile_event (filepath_Join e projectAbsPath ''.terraform/terraform.tfstate'')]) \<and>
     (Backend_Config block = None \<longrightarrow>
        msg = ''statefile backend is of type "remote" but has no backend.config block'') \<and>
     (\<forall>config. Backend_Config block = Some config \<and> Config_Organization config = None \<longrightarrow>
        msg = ''statefile backend is of type "remote" but has no organization set'') \<and>
     (\<forall>config org. Backend_Config block = Some config \<and> Config_Organization config = Some org \<and>
        (Config_Workspaces config = None \<or> Config_Workspaces config = Some []) \<longrightarrow>
        msg = ''statefile backend is of type "remote" but has no workspaces set'') \<and>
     (\<forall>config org first rest. Backend_Config block = Some config \<and>
        Config_Organization config = Some org \<and> Config_Workspaces config = Some (first # rest) \<longrightarrow>
        msg = ''statefile backend is of type "remote" but workspace has neither name nor prefix set'')\<close>
proof (cases "Backend_Config block")
  case None
  from UsingRemoteOps_invalid [OF assms(1,2) validate_no_config [OF assms(3,4) None]] None
  show ?thesis by simp
next
  case (Some config)
  note config = this
  show ?thesis
  proof (cases "Config_Organization config")
    case None
    from UsingRemoteOps_invalid [OF assms(1,2) validate_no_organization [OF assms(3,4) config None]]
      config None
    show ?thesis by simp
  next
    case (Some org)
    note org = this
    show ?thesis
    proof (cases "Config_Workspaces config = None \<or> Config_Workspaces config = Some []")
      case True
      from UsingRemoteOps_invalid [OF assms(1,2) validate_no_workspaces [OF assms(3,4) config org True]]
        config org True
      show ?thesis by auto
    next
      case False
      with assms(5) config org obtain first rest
        where w: "Config_Workspaces config = Some (first # rest)"
          and n: "Name first = []" and p: "Prefix first = []"
        by auto
      from UsingRemoteOps_invalid
        [OF assms(1,2) validate_no_name_nor_prefix [OF assms(3,4) config org w n p]]
        config org w
      show ?thesis by simp
    qed
  qed
qed

theorem incomplete_remote_backend_is_error_witness:
  \<open>UsingRemoteOps
     (sample_env
        \<lparr>Backend = Some \<lparr>Backend_Type = Some ''remote'',
           Backend_Config = Some \<lparr>Config_Hostname = None, Config_Organization = None,
             Config_Workspaces = Some [\<lparr>Name = ''exact'', Prefix = []\<rparr>]\<rparr>\<rparr>\<rparr>
        (token_file ''app.terraform.io'' (go_string ''secret''))
        (Some \<lparr>Entitlements_Operations = True\<rparr>, None)
        (Some \<lparr>Workspace_Operations = True\<rparr>, None))
     ''default'' ''/repo'' =
   (Normal (False, Some (errors_New
      ''statefile backend is of type "remote" but has no organization set'')),
    [ReadFile_event ''/repo/.terraform/terraform.tfstate''])\<close>
proof -
  let ?config = "\<lparr>Config_Hostname = None, Config_Organization = None,
             Config_Workspaces = Some [\<lparr>Name = ''exact'', Prefix = []\<rparr>]\<rparr>"
  let ?block = "\<lparr>Backend_Type = Some ''remote'', Backend_Config = Some ?config\<rparr>"
  let ?e = "sample_env \<lparr>Backend = Some ?block\<rparr>
        (token_file ''app.terraform.io'' (go_string ''secret''))
        (Some \<lparr>Entitlements_Operations = True\<rparr>, None)
        (Some \<lparr>Workspace_Operations = True\<rparr>, None)"
  have rd: "ioutil_ReadFile ?e (filepath_Join ?e ''/repo'' ''.terraform/terraform.tfstate'')
              = Inr ''/repo/.terraform/terraform.tfstate''"
    by (simp add: sample_defs)
  have js: "json_Unmarshal ?e ''/repo/.terraform/terraform.tfstate'' = Inr \<lparr>Backend = Some ?block\<rparr>"
    by (simp add: sample_defs)
  have bk: "Backend \<lparr>Backend = Some ?block\<rparr> = Some ?block" by simp
  have ty: "Backend_Type ?block = Some ''remote''" by simp
  have cf: "Backend_Config ?block = Some ?config" by simp
  have og: "Config_Organization ?config = None" by simp
  have inc: "Backend_Config ?block = None \<or>
         (\<exists>config. Backend_Config ?block = Some config \<and>
            (Config_Organization config = None \<or>
             Config_Workspaces config = None \<or>
             Config_Workspaces config = Some [] \<or>
             (\<exists>first rest. Config_Workspaces config = Some (first # rest) \<and>
                Name first = [] \<and> Prefix first = [])))"
    by simp
  from incomplete_remote_backend_is_error [OF rd js bk ty inc, of "''default''"]
  obtain msg where u: "UsingRemoteOps ?e ''default'' ''/repo'' =
       (Normal (False, Some (errors_New msg)),
        [ReadFile_event (filepath_Join ?e ''/repo'' ''.terraform/terraform.tfstate'')])"
    and m: \<open>\<forall>config. Backend_Config ?block = Some config \<and> Config_Organization config = None \<longrightarrow>
        msg = ''statefile backend is of type "remote" but has no organization set''\<close>
    by (elim exE conjE)
  from m [rule_format, OF conjI [OF cf og]]
  have \<open>msg = ''statefile backend is of type "remote" but has no organization set''\<close> .
  with u show ?thesis by (simp add: sample_defs)
qed

subsection \<open>Credentials that cannot be found\<close>

text \<open>
  C7. When the credentials file decodes and has no entry for the resolved hostname, the
  method returns an error whose arguments are the hostname and the path of the credentials
  file; when the entry exists and has no \<^verbatim>\<open>token\<close> key it returns another error with
  the same two arguments. The two errors differ.
\<close>

theorem missing_credentials_errors:
  assumes "ioutil_ReadFile e (filepath_Join e projectAbsPath ''.terraform/terraform.tfstate'') = Inr stateBytes"
    and "json_Unmarshal e stateBytes = Inr statefile"
    and "validate statefile = Normal (True, backend, None)"
    and "homedir_Dir e = Inr home"
    and "ioutil_ReadFile e (filepath_Join e home ''.terraformrc'') = Inr rcFileBytes"
    and "hcl_Parse e rcFileBytes = Inr obj"
    and "hcl_DecodeObject e obj = Inr rcFile"
  shows "(Credentials rcFile (Hostname backend) = None \<longrightarrow>
            fst (UsingRemoteOps e workspace projectAbsPath) =
              Normal (False, Some (fmt_Errorf
                ''found no credentials config for hostname %q in %q''
                [Hostname backend, filepath_Join e home ''.terraformrc'']))) \<and>
         (\<forall>hostnameConf.
            Credentials rcFile (Hostname backend) = Some hostnameConf \<and>
            hostnameConf ''token'' = None \<longrightarrow>
            fst (UsingRemoteOps e workspace projectAbsPath) =
              Normal (False, Some (fmt_Errorf
                ''found no token key in config for hostname %q in %q''
                [Hostname backend, filepath_Join e home ''.terraformrc'']))) \<and>
         fmt_Errorf ''found no credentials config for hostname %q in %q''
             [Hostname backend, filepath_Join e home ''.terraformrc''] \<noteq>
         fmt_Errorf ''found no token key in config for hostname %q in %q''
             [Hostname backend, filepath_Join e home ''.terraformrc'']"
  by (simp add: UsingRemoteOps_resolved [OF assms(1,2,3)] retrieveToken_decoded [OF assms(4-7)]
      emit_def ret_def)

theorem missing_credentials_errors_witness:
  "fst (UsingRemoteOps
     (sample_env (remote_statefile None [\<lparr>Name = ''exact'', Prefix = []\<rparr>])
        (token_file ''tfe.example.com'' (go_string ''secret''))
        (Some \<lparr>Entitlements_Operations = True\<rparr>, None)
        (Some \<lparr>Workspace_Operations = True\<rparr>, None))
     ''default'' ''/repo'') =
   Normal (False, Some (fmt_Errorf ''found no credentials config for hostname %q in %q''
     [''app.terraform.io'', ''/home/atlantis/.terraformrc''])) \<and>
   fst (UsingRemoteOps
     (sample_env (remote_statefile None [\<lparr>Name = ''exact'', Prefix = []\<rparr>])
        \<lparr>Credentials = [''app.terraform.io'' \<mapsto> Map.empty]\<rparr>
        (Some \<lparr>Entitlements_Operations = True\<rparr>, None)
        (Some \<lparr>Workspace_Operations = True\<rparr>, None))
     ''default'' ''/repo'') =
   Normal (False, Some (fmt_Errorf ''found no token key in config for hostname %q in %q''
     [''app.terraform.io'', ''/home/atlantis/.terraformrc'']))"
proof -
  let ?sf = "remote_statefile None [\<lparr>Name = ''exact'', Prefix = []\<rparr>]"
  let ?backend = "\<lparr>Hostname = ''app.terraform.io'', Organization = ''acme'',
                    WorkspaceName = ''exact'', WorkspacePrefix = []\<rparr>"
  let ?e = "\<lambda>rc. sample_env ?sf rc
        (Some \<lparr>Entitlements_Operations = True\<rparr>, None)
        (Some \<lparr>Workspace_Operations = True\<rparr>, None)"
  let ?rc1 = "token_file ''tfe.example.com'' (go_string ''secret'')"
  let ?rc2 = "\<lparr>Credentials = [''app.terraform.io'' \<mapsto> Map.empty]\<rparr>"
  have rd: "ioutil_ReadFile (?e rc) (filepath_Join (?e rc) ''/repo'' ''.terraform/terraform.tfstate'')
              = Inr ''/repo/.terraform/terraform.tfstate''" for rc
    by (simp add: sample_defs)
  have js: "json_Unmarshal (?e rc) ''/repo/.terraform/terraform.tfstate'' = Inr ?sf" for rc
    by (simp add: sample_defs)
  have v: "validate ?sf = Normal (True, ?backend, None)"
    by (simp add: validate_def sample_defs)
  have hd: "homedir_Dir (?e rc) = Inr ''/home/atlantis''" for rc
    by (simp add: sample_defs)
  have pth: "filepath_Join (?e rc) ''/home/atlantis'' ''.terraformrc'' = ''/home/atlantis/.terraformrc''" for rc
    by (simp add: sample_defs)
  have rr: "ioutil_ReadFile (?e rc) (filepath_Join (?e rc) ''/home/atlantis'' ''.terraformrc'')
              = Inr ''/home/atlantis/.terraformrc''" for rc
    by (simp add: sample_defs)
  have hp: "hcl_Parse (?e rc) ''/home/atlantis/.terraformrc'' = Inr ()" for rc
    by (simp add: sample_defs)
  have dc: "hcl_DecodeObject (?e rc) () = Inr rc" for rc
    by (simp add: sample_defs)
  have hn: "Hostname ?backend = ''app.terraform.io''" by simp
  have c1: "Credentials ?rc1 (Hostname ?backend) = None"
    by (simp add: sample_defs)
  have c2: "Credentials ?rc2 (Hostname ?backend) = Some Map.empty \<and>
            (Map.empty :: string \<rightharpoonup> go_value) ''token'' = None"
    by simp
  note t1 = missing_credentials_errors [OF rd js v hd rr hp dc, of ?rc1 "''default''"]
  note t2 = missing_credentials_errors [OF rd js v hd rr hp dc, of ?rc2 "''default''"]
  from t1 [THEN conjunct1, THEN mp, OF c1]
  have r1: "fst (UsingRemoteOps (?e ?rc1) ''default'' ''/repo'') =
    Normal (False, Some (fmt_Errorf ''found no credentials config for hostname %q in %q''
     [''app.terraform.io'', ''/home/atlantis/.terraformrc'']))"
    unfolding hn pth .
  from t2 [THEN conjunct2, THEN conjunct1, THEN spec, THEN mp, OF c2]
  have r2: "fst (UsingRemoteOps (?e ?rc2) ''default'' ''/repo'') =
    Normal (False, Some (fmt_Errorf ''found no token key in config for hostname %q in %q''
     [''app.terraform.io'', ''/home/atlantis/.terraformrc'']))"
    unfolding hn pth .
  from r1 r2 show ?thesis by (rule conjI)
qed

subsection \<open>The default hostname\<close>

text \<open>
  C8. A valid remote backend whose config has no hostname resolves to the hostname
  \<^verbatim>\<open>app.terraform.io\<close>, and the credentials are looked up under that hostname: without
  an entry for it the method fails with the error that names it, and the token of its
  entry is the one the API client is created with.
\<close>

theorem default_hostname_used_for_credentials:
  assumes "ioutil_ReadFile e (filepath_Join e projectAbsPath ''.terraform/terraform.tfstate'') = Inr stateBytes"
    and "json_Unmarshal e stateBytes = Inr statefile"
    and "Backend statefile = Some block"
    and "Backend_Config block = Some config"
    and "Config_Hostname config = None"
    and "validate statefile = Normal (True, backend, None)"
    and "homedir_Dir e = Inr home"
    and "ioutil_ReadFile e (filepath_Join e home ''.terraformrc'') = Inr rcFileBytes"
    and "hcl_Parse e rcFileBytes = Inr obj"
    and "hcl_DecodeObject e obj = Inr rcFile"
  shows "Hostname backend = ''app.terraform.io'' \<and>
         (Credentials rcFile ''app.terraform.io'' = None \<longrightarrow>
            fst (UsingRemoteOps e workspace projectAbsPath) =
              Normal (False, Some (fmt_Errorf
                ''found no credentials config for hostname %q in %q''
                [''app.terraform.io'', filepath_Join e home ''.terraformrc'']))) \<and>
         (\<forall>hostnameConf token.
            Credentials rcFile ''app.terraform.io'' = Some hostnameConf \<and>
            hostnameConf ''token'' = Some (go_string token) \<longrightarrow>
            NewClient_event token \<in> set (snd (UsingRemoteOps e workspace projectAbsPath)))"
proof -
  from validate_resolved [OF assms(6)] assms(3,4,5)
  have h: "Hostname backend = ''app.terraform.io''"
    by auto
  show ?thesis
    unfolding UsingRemoteOps_resolved [OF assms(1,2,6)] retrieveToken_decoded [OF assms(7-10)] h
    by (simp add: emit_def ret_def checkEntitlements_def)
qed

theorem default_hostname_used_for_credentials_witness:
  "validate (remote_statefile None [\<lparr>Name = ''exact'', Prefix = []\<rparr>]) =
     Normal (True, \<lparr>Hostname = ''app.terraform.io'', Organization = ''acme'',
                    WorkspaceName = ''exact'', WorkspacePrefix = []\<rparr>, None) \<and>
   NewClient_event ''secret'' \<in> set (snd (UsingRemoteOps
     (sample_env (remote_statefile None [\<lparr>Name = ''exact'', Prefix = []\<rparr>])
        (token_file ''app.terraform.io'' (go_string ''secret''))
        (Some \<lparr>Entitlements_Operations = True\<rparr>, None)
        (Some \<lparr>Workspace_Operations = True\<rparr>, None))
     ''default'' ''/repo''))"
proof -
  let ?first = "\<lparr>Name = ''exact'', Prefix = []\<rparr>"
  let ?sf = "remote_statefile None [?first]"
  let ?config = "\<lparr>Config_Hostname = None, Config_Organization = Some ''acme'',
                  Config_Workspaces = Some [?first]\<rparr>"
  let ?block = "\<lparr>Backend_Type = Some ''remote'', Backend_Config = Some ?config\<rparr>"
  let ?backend = "\<lparr>Hostname = ''app.terraform.io'', Organization = ''acme'',
                    WorkspaceName = ''exact'', WorkspacePrefix = []\<rparr>"
  let ?rc = "token_file ''app.terraform.io'' (go_string ''secret'')"
  let ?e = "sample_env ?sf ?rc
        (Some \<lparr>Entitlements_Operations = True\<rparr>, None)
        (Some \<lparr>Workspace_Operations = True\<rparr>, None)"
  have rd: "ioutil_ReadFile ?e (filepath_Join ?e ''/repo'' ''.terraform/terraform.tfstate'')
              = Inr ''/repo/.terraform/terraform.tfstate''"
    by (simp add: sample_defs)
  have js: "json_Unmarshal ?e ''/repo/.terraform/terraform.tfstate'' = Inr ?sf"
    by (simp add: sample_defs)
  have bk: "Backend ?sf = Some ?block" by (simp add: sample_defs)
  have cf: "Backend_Config ?block = Some ?config" by simp
  have hn: "Config_Hostname ?config = None" by simp
  have v: "validate ?sf = Normal (True, ?backend, None)"
    by (simp add: validate_def sample_defs)
  have hd: "homedir_Dir ?e = Inr ''/home/atlantis''"
    by (simp add: sample_defs)
  have rr: "ioutil_ReadFile ?e (filepath_Join ?e ''/home/atlantis'' ''.terraformrc'')
              = Inr ''/home/atlantis/.terraformrc''"
    by (simp add: sample_defs)
  have hp: "hcl_Parse ?e ''/home/atlantis/.terraformrc'' = Inr ()"
    by (simp add: sample_defs)
  have dc: "hcl_DecodeObject ?e () = Inr ?rc"
    by (simp add: sample_defs)
  have c: "Credentials ?rc ''app.terraform.io'' = Some [''token'' \<mapsto> go_string ''secret''] \<and>
           [''token'' \<mapsto> go_string ''secret''] ''token'' = Some (go_string ''secret'')"
    by (simp add: sample_defs)
  note t = default_hostname_used_for_credentials [OF rd js bk cf hn v hd rr hp dc, of "''default''"]
  from t [THEN conjunct2, THEN conjunct2, THEN spec, THEN spec, THEN mp, OF c]
  have "NewClient_event ''secret'' \<in> set (snd (UsingRemoteOps ?e ''default'' ''/repo''))" .
  with v show ?thesis by (rule conjI)
qed

subsection \<open>Workspace entries after the first\<close>

text \<open>
  C9. Two statefiles that differ only in the workspace entries after the first give the
  same run: with everything else in the environment unchanged, decoding the statefile's
  bytes to the second statefile instead of the first changes neither the result nor the
  error nor the events.
\<close>

theorem only_first_workspace_entry:
  assumes "ioutil_ReadFile e (filepath_Join e projectAbsPath ''.terraform/terraform.tfstate'') = Inr stateBytes"
    and "json_Unmarshal e stateBytes =
           Inr \<lparr>Backend = Some (block\<lparr>Backend_Config :=
                  Some (config\<lparr>Config_Workspaces := Some (first # rest)\<rparr>)\<rparr>)\<rparr>"
  shows "UsingRemoteOps
           (e\<lparr>json_Unmarshal := (json_Unmarshal e)(stateBytes :=
                Inr \<lparr>Backend = Some (block\<lparr>Backend_Config :=
                  Some (config\<lparr>Config_Workspaces := Some (first # rest')\<rparr>)\<rparr>)\<rparr>)\<rparr>)
           workspace projectAbsPath =
         UsingRemoteOps e workspace projectAbsPath"
proof -
  have "validate \<lparr>Backend = Some (block\<lparr>Backend_Config :=
                  Some (config\<lparr>Config_Workspaces := Some (first # rest')\<rparr>)\<rparr>)\<rparr> =
        validate \<lparr>Backend = Some (block\<lparr>Backend_Config :=
                  Some (config\<lparr>Config_Workspaces := Some (first # rest)\<rparr>)\<rparr>)\<rparr>"
    by (auto simp: validate_def split: option.split)
  with assms show ?thesis
    by (simp add: UsingRemoteOps_def Let_def retrieveToken_json_Unmarshal
        split: exec.split prod.split)
qed

theorem only_first_workspace_entry_witness:
  "UsingRemoteOps
     ((sample_env (remote_statefile None [\<lparr>Name = [], Prefix = ''my-''\<rparr>])
        (token_file ''app.terraform.io'' (go_string ''secret''))
        (Some \<lparr>Entitlements_Operations = True\<rparr>, None)
        (Some \<lparr>Workspace_Operations = True\<rparr>, None))
      \<lparr>json_Unmarshal :=
         (json_Unmarshal (sample_env (remote_statefile None [\<lparr>Name = [], Prefix = ''my-''\<rparr>])
            (token_file ''app.terraform.io'' (go_string ''secret''))
            (Some \<lparr>Entitlements_Operations = True\<rparr>, None)
            (Some \<lparr>Workspace_Operations = True\<rparr>, None)))
         (''/repo/.terraform/terraform.tfstate'' :=
            Inr (remote_statefile None
              [\<lparr>Name = [], Prefix = ''my-''\<rparr>, \<lparr>Name = ''other'', Prefix = []\<rparr>]))\<rparr>)
     ''prod'' ''/repo'' =
   UsingRemoteOps
     (sample_env (remote_statefile None [\<lparr>Name = [], Prefix = ''my-''\<rparr>])
        (token_file ''app.terraform.io'' (go_string ''secret''))
        (Some \<lparr>Entitlements_Operations = True\<rparr>, None)
        (Some \<lparr>Workspace_Operations = True\<rparr>, None))
     ''prod'' ''/repo''"
proof -
  let ?first = "\<lparr>Name = [], Prefix = ''my-''\<rparr>"
  let ?other = "\<lparr>Name = ''other'', Prefix = []\<rparr>"
  let ?config = "\<lparr>Config_Hostname = None, Config_Organization = Some ''acme'',
                  Config_Workspaces = None\<rparr>"
  let ?block = "\<lparr>Backend_Type = Some ''remote'', Backend_Config = None\<rparr>"
  let ?e = "sample_env (remote_statefile None [?first])
        (token_file ''app.terraform.io'' (go_string ''secret''))
        (Some \<lparr>Entitlements_Operations = True\<rparr>, None)
        (Some \<lparr>Workspace_Operations = True\<rparr>, None)"
  have sf: "\<lparr>Backend = Some (?block\<lparr>Backend_Config :=
                  Some (?config\<lparr>Config_Workspaces := Some (?first # rest)\<rparr>)\<rparr>)\<rparr> =
            remote_statefile None (?first # rest)" for rest
    by (simp add: sample_defs)
  have rd: "ioutil_ReadFile ?e (filepath_Join ?e ''/repo'' ''.terraform/terraform.tfstate'')
              = Inr ''/repo/.terraform/terraform.tfstate''"
    by (simp add: sample_defs)
  have js: "json_Unmarshal ?e ''/repo/.terraform/terraform.tfstate'' =
              Inr \<lparr>Backend = Some (?block\<lparr>Backend_Config :=
                  Some (?config\<lparr>Config_Workspaces := Some (?first # [])\<rparr>)\<rparr>)\<rparr>"
    unfolding sf by (simp add: sample_defs)
  from only_first_workspace_entry [OF rd js, of "[?other]" "''prod''"]
  show ?thesis unfolding sf .
qed

subsection \<open>The results without an error\<close>

text \<open>
  What holds of every run. A missing statefile, a statefile without a backend block and an
  organization that is not entitled give \<^verbatim>\<open>(false, nil)\<close>. A backend block whose type is
  not \<^verbatim>\<open>remote\<close> gives \<^verbatim>\<open>(false, nil)\<close> or the panic of line 72. A run that returns in
  none of the four cases returns \<^verbatim>\<open>false\<close> with an error or, without an error, the
  \<^verbatim>\<open>Operations\<close> flag of the workspace it has read.
\<close>

lemma returning_runs_classified:
  "(statefile_missing e projectAbsPath \<or> no_backend_block e projectAbsPath \<or>
    not_entitled e (snd (UsingRemoteOps e workspace projectAbsPath))
    \<longrightarrow> fst (UsingRemoteOps e workspace projectAbsPath) = Normal (False, None)) \<and>
   (backend_not_remote e projectAbsPath
    \<longrightarrow> fst (UsingRemoteOps e workspace projectAbsPath) = Normal (False, None) \<or>
        fst (UsingRemoteOps e workspace projectAbsPath) = Panic nil_pointer_dereference) \<and>
   (\<forall>b err. fst (UsingRemoteOps e workspace projectAbsPath) = Normal (b, err) \<and>
      \<not> (statefile_missing e projectAbsPath \<or> no_backend_block e projectAbsPath \<or>
         backend_not_remote e projectAbsPath \<or>
         not_entitled e (snd (UsingRemoteOps e workspace projectAbsPath)))
      \<longrightarrow> (b = False \<and> err \<noteq> None) \<or>
          (err = None \<and> workspace_answer e (snd (UsingRemoteOps e workspace projectAbsPath)) b))"
proof (intro conjI impI allI)
  assume "statefile_missing e projectAbsPath \<or> no_backend_block e projectAbsPath \<or>
    not_entitled e (snd (UsingRemoteOps e workspace projectAbsPath))"
  then consider (missing) "statefile_missing e projectAbsPath"
    | (none) "no_backend_block e projectAbsPath"
    | (unentitled) "not_entitled e (snd (UsingRemoteOps e workspace projectAbsPath))"
    by blast
  then show "fst (UsingRemoteOps e workspace projectAbsPath) = Normal (False, None)"
  proof cases
    case missing
    then show ?thesis
      by (auto simp: statefile_missing_def UsingRemoteOps_def Let_def ret_def split: sum.splits)
  next
    case none
    then show ?thesis
      by (auto simp: no_backend_block_def parsed_statefile_def UsingRemoteOps_def Let_def ret_def
          validate_def split: sum.splits option.splits)
  next
    case unentitled
    then show ?thesis by (rule not_entitled_run)
  qed
next
  assume "backend_not_remote e projectAbsPath"
  then show "fst (UsingRemoteOps e workspace projectAbsPath) = Normal (False, None) \<or>
        fst (UsingRemoteOps e workspace projectAbsPath) = Panic nil_pointer_dereference"
    by (auto simp: backend_not_remote_def parsed_statefile_def UsingRemoteOps_def Let_def
        ret_def validate_def split: sum.splits option.splits)
next
  fix b err
  assume a: "fst (UsingRemoteOps e workspace projectAbsPath) = Normal (b, err) \<and>
      \<not> (statefile_missing e projectAbsPath \<or> no_backend_block e projectAbsPath \<or>
         backend_not_remote e projectAbsPath \<or>
         not_entitled e (snd (UsingRemoteOps e workspace projectAbsPath)))"
  let ?path = "filepath_Join e projectAbsPath ''.terraform/terraform.tfstate''"
  from a UsingRemoteOps_outcome_early [of e workspace projectAbsPath b err]
  consider (early) "b = False \<and> err \<noteq> None"
    | (late) backend where "UsingRemoteOps e workspace projectAbsPath =
              emit (ReadFile_event ?path) (retrieveToken e workspace backend)"
    by blast
  then show "(b = False \<and> err \<noteq> None) \<or>
          (err = None \<and> workspace_answer e (snd (UsingRemoteOps e workspace projectAbsPath)) b)"
  proof cases
    case early
    then show ?thesis by simp
  next
    case late
    with a retrieveToken_outcome [of e workspace backend b err]
    show ?thesis by auto
  qed
qed

text \<open>
  C5. The claim: a backend whose type is not \<^verbatim>\<open>remote\<close> returns \<^verbatim>\<open>(false, nil)\<close>, and
  every path outside the four cases returns an error or the workspace's flag. The code
  does neither where it panics. On a statefile whose backend block has a config and no
  type, the type is not \<^verbatim>\<open>remote\<close> and the method panics at line 72 instead of returning
  \<^verbatim>\<open>(false, nil)\<close>. On a remote backend with the token \<^verbatim>\<open>true\<close> in the credentials
  file, the statefile exists, has a backend block of type \<^verbatim>\<open>remote\<close>, no entitlements
  query is made, and the method panics at line 149: it returns neither an error nor the
  flag of a workspace.
\<close>

theorem panicking_runs_outside_the_results:
  "backend_not_remote
     (sample_env
        \<lparr>Backend = Some \<lparr>Backend_Type = None,
           Backend_Config = Some \<lparr>Config_Hostname = None, Config_Organization = Some ''acme'',
             Config_Workspaces = Some [\<lparr>Name = ''exact'', Prefix = []\<rparr>]\<rparr>\<rparr>\<rparr>
        (token_file ''app.terraform.io'' (go_string ''secret''))
        (Some \<lparr>Entitlements_Operations = True\<rparr>, None)
        (Some \<lparr>Workspace_Operations = True\<rparr>, None))
     ''/repo'' \<and>
   UsingRemoteOps
     (sample_env
        \<lparr>Backend = Some \<lparr>Backend_Type = None,
           Backend_Config = Some \<lparr>Config_Hostname = None, Config_Organization = Some ''acme'',
             Config_Workspaces = Some [\<lparr>Name = ''exact'', Prefix = []\<rparr>]\<rparr>\<rparr>\<rparr>
        (token_file ''app.terraform.io'' (go_string ''secret''))
        (Some \<lparr>Entitlements_Operations = True\<rparr>, None)
        (Some \<lparr>Workspace_Operations = True\<rparr>, None))
     ''default'' ''/repo'' =
   (Panic nil_pointer_dereference, [ReadFile_event ''/repo/.terraform/terraform.tfstate'']) \<and>
   \<not> statefile_missing
     (sample_env (remote_statefile None [\<lparr>Name = ''exact'', Prefix = []\<rparr>])
        (token_file ''app.terraform.io'' (go_bool True))
        (Some \<lparr>Entitlements_Operations = True\<rparr>, None)
        (Some \<lparr>Workspace_Operations = True\<rparr>, None))
     ''/repo'' \<and>
   \<not> no_backend_block
     (sample_env (remote_statefile None [\<lparr>Name = ''exact'', Prefix = []\<rparr>])
        (token_file ''app.terraform.io'' (go_bool True))
        (Some \<lparr>Entitlements_Operations = True\<rparr>, None)
        (Some \<lparr>Workspace_Operations = True\<rparr>, None))
     ''/repo'' \<and>
   \<not> backend_not_remote
     (sample_env (remote_statefile None [\<lparr>Name = ''exact'', Prefix = []\<rparr>])
        (token_file ''app.terraform.io'' (go_bool True))
        (Some \<lparr>Entitlements_Operations = True\<rparr>, None)
        (Some \<lparr>Workspace_Operations = True\<rparr>, None))
     ''/repo'' \<and>
   UsingRemoteOps
     (sample_env (remote_statefile None [\<lparr>Name = ''exact'', Prefix = []\<rparr>])
        (token_file ''app.terraform.io'' (go_bool True))
        (Some \<lparr>Entitlements_Operations = True\<rparr>, None)
        (Some \<lparr>Workspace_Operations = True\<rparr>, None))
     ''default'' ''/repo'' =
   (Panic interface_conversion,
    [ReadFile_event ''/repo/.terraform/terraform.tfstate'',
     ReadFile_event ''/home/atlantis/.terraformrc''])"
  by (simp add: run_defs sample_defs statefile_missing_def no_backend_block_def
      backend_not_remote_def parsed_statefile_def)

end
